theory Spec2Isabelle
  imports Complex_Main
begin

section \<open>Python values used by \<open>src/main.py\<close>\<close>

text \<open>
  A Python \<open>str\<close> is a sequence of Unicode code points, so it is modelled as a list of
  natural numbers. \<open>str\<close> turns an ASCII literal into such a list; the emoji of the
  script's messages are written as their code points.
\<close>

type_synonym pystr = "nat list"

definition str :: "string \<Rightarrow> pystr" where
  "str s = map of_char s"

text \<open>
  \<open>str.isspace\<close> for one code point: the 29 code points Python 3 treats as whitespace.
\<close>

definition isspace :: "nat \<Rightarrow> bool" where
  "isspace c \<longleftrightarrow>
     (9 \<le> c \<and> c \<le> 13) \<or> (28 \<le> c \<and> c \<le> 32) \<or> c = 133 \<or> c = 160 \<or> c = 5760 \<or>
     (8192 \<le> c \<and> c \<le> 8202) \<or> c = 8232 \<or> c = 8233 \<or> c = 8239 \<or> c = 8287 \<or> c = 12288"

text \<open>\<open>s.strip()\<close>: leading and trailing whitespace removed.\<close>

definition py_strip :: "pystr \<Rightarrow> pystr" where
  "py_strip s = rev (dropWhile isspace (rev (dropWhile isspace s)))"

text \<open>
  \<open>s.lower()\<close>. The mapping is Python's for every code point below 256 (A-Z and the
  Latin-1 capitals, the multiplication sign 215 excepted, move up by 32). From 256 on
  Python follows the Unicode tables, which are not reproduced: the model leaves those
  code points unchanged. The script only compares a lowercased string with the ASCII
  words \<open>exit\<close>, \<open>yes\<close> and \<open>y\<close>; no code point from 256 on lowercases to a letter of
  these words, so the comparisons come out as in Python.
\<close>

definition lower_cp :: "nat \<Rightarrow> nat" where
  "lower_cp c = (if (65 \<le> c \<and> c \<le> 90) \<or> (192 \<le> c \<and> c \<le> 222 \<and> c \<noteq> 215) then c + 32 else c)"

definition py_lower :: "pystr \<Rightarrow> pystr" where
  "py_lower s = map lower_cp s"

text \<open>
  Exceptions that reach the script's functions: the \<open>ValueError\<close> of
  \<open>load_environment\<close>, the \<open>EOFError\<close> of \<open>input\<close> at the end of standard input, and
  whatever the library raises inside \<open>chain.run\<close> (kept opaque, of type \<open>'e\<close>). The
  script has no \<open>try\<close>, so an exception ends every enclosing function.
\<close>

datatype 'e exn = ValueError pystr | EOFError | LibraryError 'e

section \<open>The objects the script builds\<close>

text \<open>
  \<open>ChatOpenAI\<close>, \<open>PromptTemplate\<close> and \<open>LLMChain\<close> are classes of the LangChain
  library, which is not part of the repository. Each object is modelled as the record
  of the keyword arguments the script passes to the constructor; what the library does
  with them (validation, formatting, the network call) is not modelled here. The
  temperature literals 0.7, 0.9 and 0.3 are kept as the decimal fractions written in
  the source.
\<close>

record chat_openai =
  model :: pystr
  temperature :: rat

record prompt_template =
  input_variables :: "pystr list"
  template :: pystr

record llm_chain =
  llm :: chat_openai
  prompt :: prompt_template

text \<open>The arguments of \<open>chain.run\<close>: one positional value, or keyword arguments in order.\<close>

datatype run_args = Positional pystr | Keywords "(string \<times> pystr) list"

text \<open>
  \<open>chain.run\<close> is library code with effects of its own (it formats the prompt and
  calls the remote model). It is a parameter of the model: a function from the hidden
  state \<open>'b\<close> of the library and the backend, the chain and the arguments to either an
  exception or the response text, and the next hidden state.
\<close>

type_synonym ('b, 'e) chain_run = "'b \<Rightarrow> llm_chain \<Rightarrow> run_args \<Rightarrow> ('e + pystr) \<times> 'b"

section \<open>The process state\<close>

text \<open>
  What the script reads and writes: the process environment, the lines still to be read
  from standard input, the trace of what it did, and the hidden state of the library.
  The trace records each \<open>print\<close>, each \<open>input\<close> (with its prompt) and each
  \<open>chain.run\<close>, in order.
\<close>

datatype event = Print pystr | Ask pystr | Call llm_chain run_args

type_synonym env = "pystr \<rightharpoonup> pystr"

record 'b world =
  environ :: env
  stdin :: "pystr list"
  out :: "event list"
  backend :: 'b

definition py_print :: "pystr \<Rightarrow> 'b world \<Rightarrow> 'b world" where
  "py_print s w = w\<lparr>out := out w @ [Print s]\<rparr>"

text \<open>
  \<open>input(p)\<close> writes the prompt and returns the next line; with no line left it raises
  \<open>EOFError\<close>.
\<close>

definition py_input :: "pystr \<Rightarrow> 'b world \<Rightarrow> ('e exn + pystr) \<times> 'b world" where
  "py_input p w =
     (case stdin w of
        [] \<Rightarrow> (Inl EOFError, w\<lparr>out := out w @ [Ask p]\<rparr>)
      | l # ls \<Rightarrow> (Inr l, w\<lparr>stdin := ls, out := out w @ [Ask p]\<rparr>))"

text \<open>\<open>chain.run(...)\<close>: the call is recorded, the library's answer returned.\<close>

definition run_chain ::
  "('b, 'e) chain_run \<Rightarrow> llm_chain \<Rightarrow> run_args \<Rightarrow> 'b world \<Rightarrow> ('e exn + pystr) \<times> 'b world" where
  "run_chain run chain args w =
     (case run (backend w) chain args of
        (Inl e, b) \<Rightarrow> (Inl (LibraryError e), w\<lparr>out := out w @ [Call chain args], backend := b\<rparr>)
      | (Inr response, b) \<Rightarrow> (Inr response, w\<lparr>out := out w @ [Call chain args], backend := b\<rparr>))"

text \<open>Sequencing: an exception of the first statement skips the rest.\<close>

definition then_do ::
  "('x + 'a) \<times> 's \<Rightarrow> ('a \<Rightarrow> 's \<Rightarrow> ('x + 'c) \<times> 's) \<Rightarrow> ('x + 'c) \<times> 's" where
  "then_do r k = (case r of (Inl e, s) \<Rightarrow> (Inl e, s) | (Inr a, s) \<Rightarrow> k a s)"

section \<open>The functions of \<open>src/main.py\<close>\<close>

text \<open>\<open>not v\<close> for the result of \<open>os.getenv\<close>: true for \<open>None\<close> and for the empty string.\<close>

definition py_not :: "pystr option \<Rightarrow> bool" where
  "py_not v = (case v of None \<Rightarrow> True | Some s \<Rightarrow> s = [])"

text \<open>
  \<open>load_environment\<close>. \<open>load_dotenv\<close> belongs to the dotenv library: it is a parameter,
  any function that updates the environment.
\<close>

definition load_environment :: "(env \<Rightarrow> env) \<Rightarrow> 'b world \<Rightarrow> ('e exn + unit) \<times> 'b world" where
  "load_environment load_dotenv w =
     (let w1 = w\<lparr>environ := load_dotenv (environ w)\<rparr> in
      if py_not (environ w1 (str ''OPENAI_API_KEY''))
      then (Inl (ValueError
              (str ''OPENAI_API_KEY not found. Please create a .env file with your API key.'')), w1)
      else (Inr (), w1))"

definition create_llm :: "pystr \<Rightarrow> rat \<Rightarrow> chat_openai" where
  "create_llm m t = \<lparr>model = m, temperature = t\<rparr>"

text \<open>The default of \<open>create_llm\<close>'s parameter \<open>model\<close>.\<close>

definition default_model :: pystr where
  "default_model = str ''gpt-3.5-turbo''"

definition create_prompt_template :: "pystr \<Rightarrow> pystr list \<Rightarrow> prompt_template" where
  "create_prompt_template t vs = \<lparr>input_variables = vs, template = t\<rparr>"

definition create_chain :: "chat_openai \<Rightarrow> prompt_template \<Rightarrow> llm_chain" where
  "create_chain l p = \<lparr>llm = l, prompt = p\<rparr>"

text \<open>The two rules the script prints: \<open>"=" * 60\<close> and \<open>"-" * 40\<close>.\<close>

definition rule60 :: pystr where
  "rule60 = replicate 60 61"

definition rule40 :: pystr where
  "rule40 = replicate 40 45"

text \<open>The heading of every demonstration and of the interactive mode.\<close>

definition heading :: "pystr \<Rightarrow> 'b world \<Rightarrow> 'b world" where
  "heading title w = py_print rule60 (py_print title (py_print (10 # rule60) w))"

text \<open>The body of the \<open>for\<close> loop of \<open>demonstrate_simple_chain\<close>, over the remaining topics.\<close>

fun for_topics ::
  "('b, 'e) chain_run \<Rightarrow> llm_chain \<Rightarrow> pystr list \<Rightarrow> 'b world \<Rightarrow> ('e exn + unit) \<times> 'b world" where
  "for_topics run chain [] w = (Inr (), w)"
| "for_topics run chain (topic # topics) w =
     then_do
       (run_chain run chain (Positional topic)
          (py_print rule40 (py_print ([10, 0x1F4DA] @ str '' Topic: '' @ topic) w)))
       (\<lambda>response w1. for_topics run chain topics (py_print response w1))"

definition simple_chain :: llm_chain where
  "simple_chain =
     create_chain (create_llm default_model (7 / 10))
       (create_prompt_template
          (str ''Explain {topic} in simple terms that a beginner could understand.'')
          [str ''topic''])"

definition demonstrate_simple_chain ::
  "('b, 'e) chain_run \<Rightarrow> 'b world \<Rightarrow> ('e exn + unit) \<times> 'b world" where
  "demonstrate_simple_chain run w =
     for_topics run simple_chain
       [str ''machine learning'', str ''neural networks'', str ''natural language processing'']
       (heading (str ''DEMO 1: Simple Explanation Chain'') w)"

definition creative_chain :: llm_chain where
  "creative_chain =
     create_chain (create_llm default_model (9 / 10))
       (create_prompt_template
          (str ''Write a short creative story (2-3 paragraphs) about {subject} in the genre of {genre}.'')
          [str ''subject'', str ''genre''])"

definition demonstrate_creative_chain ::
  "('b, 'e) chain_run \<Rightarrow> 'b world \<Rightarrow> ('e exn + unit) \<times> 'b world" where
  "demonstrate_creative_chain run w =
     then_do
       (run_chain run creative_chain
          (Keywords [(''subject'', str ''a robot learning to paint''),
                     (''genre'', str ''science fiction'')])
          (py_print rule40
             (py_print ([10, 0x270D, 0xFE0F] @ str '' Generating creative story...'')
                (heading (str ''DEMO 2: Creative Writing Chain'') w))))
       (\<lambda>response w1. (Inr (), py_print response w1))"

definition structured_chain :: llm_chain where
  "structured_chain =
     create_chain (create_llm default_model (3 / 10))
       (create_prompt_template
          (str ''Analyze the following concept and provide a structured response:'' @ [10, 10] @
           str ''Concept: {concept}'' @ [10, 10] @
           str ''Please provide:'' @ [10] @
           str ''1. Definition (1-2 sentences)'' @ [10] @
           str ''2. Key characteristics (3 bullet points)'' @ [10] @
           str ''3. Real-world applications (2-3 examples)'' @ [10] @
           str ''4. Related concepts (2-3 items)'')
          [str ''concept''])"

definition demonstrate_structured_output_chain ::
  "('b, 'e) chain_run \<Rightarrow> 'b world \<Rightarrow> ('e exn + unit) \<times> 'b world" where
  "demonstrate_structured_output_chain run w =
     then_do
       (run_chain run structured_chain
          (Keywords [(''concept'', str ''API (Application Programming Interface)'')])
          (py_print rule40
             (py_print
                ([10, 0x1F50D] @ str '' Analyzing concept: '' @ [39] @
                 str ''API (Application Programming Interface)'' @ [39])
                (heading (str ''DEMO 3: Structured Output Chain'') w))))
       (\<lambda>response w1. (Inr (), py_print response w1))"

definition translation_chain :: llm_chain where
  "translation_chain =
     create_chain (create_llm default_model (3 / 10))
       (create_prompt_template
          (str ''Translate the following text from {source_language} to {target_language}.'' @
           [10, 10] @ str ''Text: {text}'' @ [10, 10] @ str ''Translation:'')
          [str ''source_language'', str ''target_language'', str ''text''])"

definition demonstrate_translation_chain ::
  "('b, 'e) chain_run \<Rightarrow> 'b world \<Rightarrow> ('e exn + unit) \<times> 'b world" where
  "demonstrate_translation_chain run w =
     then_do
       (run_chain run translation_chain
          (Keywords [(''source_language'', str ''English''),
                     (''target_language'', str ''Spanish''),
                     (''text'', str ''Artificial intelligence is transforming how we interact with technology.'')])
          (py_print rule40
             (py_print ([10, 0x1F310] @ str '' Translating text...'')
                (heading (str ''DEMO 4: Translation Chain'') w))))
       (\<lambda>response w1. (Inr (), py_print response w1))"

text \<open>The chain of the interactive mode: one parameter, \<open>question\<close>.\<close>

definition question_chain :: llm_chain where
  "question_chain =
     create_chain (create_llm default_model (7 / 10))
       (create_prompt_template
          (str ''You are a helpful AI assistant. Answer the following question clearly and concisely:'' @
           [10, 10] @ str ''{question}'')
          [str ''question''])"

text \<open>The fixed texts of the interactive loop.\<close>

definition ask_question :: pystr where
  "ask_question = [10, 0x1F914] @ str '' Your question: ''"

definition goodbye :: pystr where
  "goodbye = [10] @ str ''Goodbye! '' @ [0x1F44B]"

definition please_enter :: pystr where
  "please_enter = str ''Please enter a valid question.''"

definition response_header :: pystr where
  "response_header = [10, 0x1F4A1] @ str '' Response:''"

text \<open>
  The \<open>while True\<close> loop of \<open>interactive_mode\<close>. Every iteration reads a line, so the
  loop runs at most once per line of standard input plus once more, where \<open>input\<close>
  raises \<open>EOFError\<close>: the recursion terminates on the number of lines left.
\<close>

function interactive_loop ::
  "('b, 'e) chain_run \<Rightarrow> llm_chain \<Rightarrow> 'b world \<Rightarrow> ('e exn + unit) \<times> 'b world" where
  "interactive_loop run chain w =
     (case py_input ask_question w of
        (Inl e, w1) \<Rightarrow> (Inl e, w1)
      | (Inr line, w1) \<Rightarrow>
          (let question = py_strip line in
           if py_lower question = str ''exit''
           then (Inr (), py_print goodbye w1)
           else if question = []
           then interactive_loop run chain (py_print please_enter w1)
           else
             (case run_chain run chain (Keywords [(''question'', question)])
                     (py_print rule40 (py_print response_header w1)) of
                (Inl e, w2) \<Rightarrow> (Inl e, w2)
              | (Inr response, w2) \<Rightarrow> interactive_loop run chain (py_print response w2))))"
  by pat_completeness auto
termination
  by (relation "measure (\<lambda>(run, chain, w). length (stdin w))")
     (auto simp: py_input_def py_print_def run_chain_def split: list.splits prod.splits sum.splits)

declare interactive_loop.simps [simp del]

definition interactive_mode ::
  "('b, 'e) chain_run \<Rightarrow> 'b world \<Rightarrow> ('e exn + unit) \<times> 'b world" where
  "interactive_mode run w =
     interactive_loop run question_chain
       (py_print (str ''Type '' @ [39] @ str ''exit'' @ [39] @ str '' to quit.'' @ [10])
          (py_print (str ''Ask any question and get an AI-powered response.'')
             (heading (str ''INTERACTIVE MODE'') w)))"

definition main ::
  "(env \<Rightarrow> env) \<Rightarrow> ('b, 'e) chain_run \<Rightarrow> 'b world \<Rightarrow> ('e exn + unit) \<times> 'b world" where
  "main load_dotenv run w =
     then_do
       (load_environment load_dotenv
          (py_print rule60
             (py_print ([0x1F517] @ str '' LangChain LLM Chain Basics'') (py_print rule60 w))))
       (\<lambda>_ w1. then_do
          (demonstrate_simple_chain run
             (py_print ([0x2705] @ str '' Environment loaded successfully!'') w1))
       (\<lambda>_ w2. then_do (demonstrate_creative_chain run w2)
       (\<lambda>_ w3. then_do (demonstrate_structured_output_chain run w3)
       (\<lambda>_ w4. then_do (demonstrate_translation_chain run w4)
       (\<lambda>_ w5. then_do
          (py_input (str ''Would you like to enter interactive mode? (yes/no): '')
             (py_print (10 # rule60) w5))
       (\<lambda>line w6.
          (let user_input = py_lower (py_strip line) in
           if user_input \<in> set [str ''yes'', str ''y'']
           then interactive_mode run w6
           else (Inr (),
                 py_print rule60
                   (py_print ([10, 0x2705] @ str '' All demonstrations completed successfully!'')
                      w6)))))))))"

section \<open>Whitespace and lower case\<close>

lemma dropWhile_all_Nil:
  "(\<forall>c\<in>set (dropWhile P l). P c) \<longleftrightarrow> dropWhile P l = []"
proof (cases "dropWhile P l")
  case Nil
  then show ?thesis by (auto dest: set_dropWhileD)
next
  case (Cons x xs)
  then have "\<not> P x"
    using hd_dropWhile [of P l] by simp
  with Cons show ?thesis by auto
qed

text \<open>A line strips to the empty string exactly when it is empty or all whitespace.\<close>

lemma py_strip_Nil_iff: "py_strip l = [] \<longleftrightarrow> (\<forall>c\<in>set l. isspace c)"
proof -
  have "py_strip l = [] \<longleftrightarrow> (\<forall>c\<in>set (dropWhile isspace l). isspace c)"
    unfolding py_strip_def by (simp add: dropWhile_eq_Nil_conv)
  also have "\<dots> \<longleftrightarrow> dropWhile isspace l = []"
    by (rule dropWhile_all_Nil)
  also have "\<dots> \<longleftrightarrow> (\<forall>c\<in>set l. isspace c)"
    by (rule dropWhile_eq_Nil_conv)
  finally show ?thesis .
qed

lemma lower_cp_letter:
  "lower_cp c = 101 \<or> lower_cp c = 116 \<Longrightarrow> \<not> isspace c"
  by (auto simp: lower_cp_def isspace_def split: if_splits)

text \<open>A line whose lower case is \<open>exit\<close> has no whitespace to strip.\<close>

lemma py_lower_exit_strip:
  assumes "py_lower l = str ''exit''"
  shows "py_strip l = l"
proof -
  from assms obtain a b c d where l: "l = [a, b, c, d]"
    and a: "lower_cp a = 101" and d: "lower_cp d = 116"
    by (auto simp: py_lower_def str_def map_eq_Cons_conv)
  have "\<not> isspace a" "\<not> isspace d"
    using a d lower_cp_letter by blast+
  then show ?thesis
    by (simp add: l py_strip_def)
qed

section \<open>One iteration of the interactive loop\<close>

text \<open>
  The five ways through the loop body: end of input, the exit word, a blank line, a
  question the chain answers, a question on which the chain raises.
\<close>

lemma loop_eof:
  "stdin w = [] \<Longrightarrow>
   interactive_loop run chain w = (Inl EOFError, w\<lparr>out := out w @ [Ask ask_question]\<rparr>)"
  by (subst interactive_loop.simps) (simp add: py_input_def)

lemma loop_exit:
  "stdin w = l # ls \<Longrightarrow> py_lower (py_strip l) = str ''exit'' \<Longrightarrow>
   interactive_loop run chain w =
     (Inr (), w\<lparr>stdin := ls, out := out w @ [Ask ask_question, Print goodbye]\<rparr>)"
  by (subst interactive_loop.simps) (simp add: py_input_def py_print_def)

lemma loop_blank:
  "stdin w = l # ls \<Longrightarrow> py_strip l = [] \<Longrightarrow>
   interactive_loop run chain w =
     interactive_loop run chain
       (w\<lparr>stdin := ls, out := out w @ [Ask ask_question, Print please_enter]\<rparr>)"
  by (subst interactive_loop.simps) (simp add: py_input_def py_print_def py_lower_def str_def)

lemma loop_forward:
  "stdin w = l # ls \<Longrightarrow> py_lower (py_strip l) \<noteq> str ''exit'' \<Longrightarrow> py_strip l \<noteq> [] \<Longrightarrow>
   run (backend w) chain (Keywords [(''question'', py_strip l)]) = (Inr response, b) \<Longrightarrow>
   interactive_loop run chain w =
     interactive_loop run chain
       (w\<lparr>stdin := ls, backend := b,
          out := out w @ [Ask ask_question, Print response_header, Print rule40,
                          Call chain (Keywords [(''question'', py_strip l)]), Print response]\<rparr>)"
  by (subst interactive_loop.simps) (simp add: py_input_def py_print_def run_chain_def)

text \<open>
  No \<open>try\<close> surrounds \<open>chain.run\<close>: when it raises, the loop ends with that very
  exception, after one call and with no response printed.
\<close>

lemma loop_fail:
  "stdin w = l # ls \<Longrightarrow> py_lower (py_strip l) \<noteq> str ''exit'' \<Longrightarrow> py_strip l \<noteq> [] \<Longrightarrow>
   run (backend w) chain (Keywords [(''question'', py_strip l)]) = (Inl e, b) \<Longrightarrow>
   interactive_loop run chain w =
     (Inl (LibraryError e),
      w\<lparr>stdin := ls, backend := b,
        out := out w @ [Ask ask_question, Print response_header, Print rule40,
                        Call chain (Keywords [(''question'', py_strip l)])]\<rparr>)"
  by (subst interactive_loop.simps) (simp add: py_input_def py_print_def run_chain_def)

section \<open>The whole loop\<close>

text \<open>
  The loop returns normally only at a line that strips and lowercases to \<open>exit\<close>, and
  that line is the first such line of the input.
\<close>

lemma loop_normal_exit:
  "interactive_loop run chain w = (Inr (), w') \<Longrightarrow>
   \<exists>pre l. stdin w = pre @ l # stdin w' \<and> py_lower (py_strip l) = str ''exit'' \<and>
     (\<forall>x\<in>set pre. py_lower (py_strip x) \<noteq> str ''exit'')"
proof (induction "stdin w" arbitrary: w)
  case Nil
  then show ?case by (simp add: loop_eof)
next
  case (Cons l ls)
  note st = Cons.hyps(2) [symmetric]
  show ?case
  proof (cases "py_lower (py_strip l) = str ''exit''")
    case True
    with Cons.prems st have "stdin w' = ls"
      by (auto simp: loop_exit)
    with True st show ?thesis by fastforce
  next
    case nex: False
    show ?thesis
    proof (cases "py_strip l = []")
      case True
      let ?w1 = "w\<lparr>stdin := ls, out := out w @ [Ask ask_question, Print please_enter]\<rparr>"
      have "interactive_loop run chain ?w1 = (Inr (), w')"
        using Cons.prems by (simp only: loop_blank [OF st True])
      moreover have "ls = stdin ?w1" by simp
      ultimately obtain pre l' where "stdin ?w1 = pre @ l' # stdin w'"
        "py_lower (py_strip l') = str ''exit''"
        "\<forall>x\<in>set pre. py_lower (py_strip x) \<noteq> str ''exit''"
        using Cons.hyps(1) by blast
      with nex st show ?thesis
        by (intro exI [of _ "l # pre"] exI [of _ l']) simp
    next
      case nb: False
      obtain r b where rb: "run (backend w) chain (Keywords [(''question'', py_strip l)]) = (r, b)"
        by (cases "run (backend w) chain (Keywords [(''question'', py_strip l)])")
      show ?thesis
      proof (cases r)
        case (Inl e)
        with Cons.prems rb show ?thesis by (simp add: loop_fail [OF st nex nb])
      next
        case (Inr response)
        let ?w1 = "w\<lparr>stdin := ls, backend := b,
          out := out w @ [Ask ask_question, Print response_header, Print rule40,
                          Call chain (Keywords [(''question'', py_strip l)]), Print response]\<rparr>"
        have "interactive_loop run chain ?w1 = (Inr (), w')"
          using Cons.prems rb Inr by (simp only: loop_forward [OF st nex nb])
        moreover have "ls = stdin ?w1" by simp
        ultimately obtain pre l' where "stdin ?w1 = pre @ l' # stdin w'"
          "py_lower (py_strip l') = str ''exit''"
          "\<forall>x\<in>set pre. py_lower (py_strip x) \<noteq> str ''exit''"
          using Cons.hyps(1) by blast
        with nex st show ?thesis
          by (intro exI [of _ "l # pre"] exI [of _ l']) simp
      qed
    qed
  qed
qed

text \<open>Every iteration starts by asking for a line.\<close>

lemma loop_out_prefix:
  "\<exists>rest. out (snd (interactive_loop run chain w)) = out w @ Ask ask_question # rest"
proof (induction "stdin w" arbitrary: w)
  case Nil
  then show ?case by (simp add: loop_eof)
next
  case (Cons l ls)
  note st = Cons.hyps(2) [symmetric]
  show ?case
  proof (cases "py_lower (py_strip l) = str ''exit''")
    case True
    then show ?thesis by (simp add: loop_exit [OF st])
  next
    case nex: False
    show ?thesis
    proof (cases "py_strip l = []")
      case True
      let ?w1 = "w\<lparr>stdin := ls, out := out w @ [Ask ask_question, Print please_enter]\<rparr>"
      have "ls = stdin ?w1" by simp
      from Cons.hyps(1) [OF this] show ?thesis
        by (auto simp: loop_blank [OF st True])
    next
      case nb: False
      obtain r b where rb: "run (backend w) chain (Keywords [(''question'', py_strip l)]) = (r, b)"
        by (cases "run (backend w) chain (Keywords [(''question'', py_strip l)])")
      show ?thesis
      proof (cases r)
        case (Inl e)
        with rb show ?thesis by (simp add: loop_fail [OF st nex nb])
      next
        case (Inr response)
        let ?w1 = "w\<lparr>stdin := ls, backend := b,
          out := out w @ [Ask ask_question, Print response_header, Print rule40,
                          Call chain (Keywords [(''question'', py_strip l)]), Print response]\<rparr>"
        have "ls = stdin ?w1" by simp
        from Cons.hyps(1) [OF this] rb Inr show ?thesis
          by (auto simp: loop_forward [OF st nex nb])
      qed
    qed
  qed
qed

text \<open>
  Every \<open>chain.run\<close> the loop makes is on the loop's chain, with one keyword argument
  \<open>question\<close> whose value is a stripped input line that is not empty.
\<close>

lemma loop_calls:
  "Call c a \<in> set (out (snd (interactive_loop run chain w))) \<Longrightarrow>
   Call c a \<in> set (out w) \<or>
   (c = chain \<and>
    (\<exists>l\<in>set (stdin w). py_strip l \<noteq> [] \<and> a = Keywords [(''question'', py_strip l)]))"
proof (induction "stdin w" arbitrary: w)
  case Nil
  then show ?case by (simp add: loop_eof)
next
  case (Cons l ls)
  note st = Cons.hyps(2) [symmetric]
  show ?case
  proof (cases "py_lower (py_strip l) = str ''exit''")
    case True
    with Cons.prems show ?thesis by (simp add: loop_exit [OF st])
  next
    case nex: False
    show ?thesis
    proof (cases "py_strip l = []")
      case True
      let ?w1 = "w\<lparr>stdin := ls, out := out w @ [Ask ask_question, Print please_enter]\<rparr>"
      have "ls = stdin ?w1" by simp
      moreover have "Call c a \<in> set (out (snd (interactive_loop run chain ?w1)))"
        using Cons.prems by (simp only: loop_blank [OF st True])
      ultimately have "Call c a \<in> set (out ?w1) \<or>
        (c = chain \<and>
         (\<exists>l\<in>set (stdin ?w1). py_strip l \<noteq> [] \<and> a = Keywords [(''question'', py_strip l)]))"
        by (rule Cons.hyps(1))
      with st show ?thesis by auto
    next
      case nb: False
      obtain r b where rb: "run (backend w) chain (Keywords [(''question'', py_strip l)]) = (r, b)"
        by (cases "run (backend w) chain (Keywords [(''question'', py_strip l)])")
      show ?thesis
      proof (cases r)
        case (Inl e)
        with Cons.prems rb nb st show ?thesis by (auto simp: loop_fail [OF st nex nb])
      next
        case (Inr response)
        let ?w1 = "w\<lparr>stdin := ls, backend := b,
          out := out w @ [Ask ask_question, Print response_header, Print rule40,
                          Call chain (Keywords [(''question'', py_strip l)]), Print response]\<rparr>"
        have "ls = stdin ?w1" by simp
        moreover have "Call c a \<in> set (out (snd (interactive_loop run chain ?w1)))"
          using Cons.prems rb Inr by (simp only: loop_forward [OF st nex nb])
        ultimately have "Call c a \<in> set (out ?w1) \<or>
          (c = chain \<and>
           (\<exists>l\<in>set (stdin ?w1). py_strip l \<noteq> [] \<and> a = Keywords [(''question'', py_strip l)]))"
          by (rule Cons.hyps(1))
        with st nb show ?thesis by auto
      qed
    qed
  qed
qed

section \<open>The claims\<close>

text \<open>
  Claim C7. The secret is read from the process environment as \<open>load_dotenv\<close> leaves
  it. When \<open>OPENAI_API_KEY\<close> is absent there, \<open>main\<close> ends with the \<open>ValueError\<close> of
  \<open>load_environment\<close> after printing its three banner lines and nothing else: no
  \<open>chain.run\<close> is in the trace, and standard input and the library's state are
  untouched. When the key is present and not empty, \<open>load_environment\<close> returns
  normally.
\<close>

theorem missing_api_key_is_fatal:
  fixes run :: "('b, 'e) chain_run" and w :: "'b world"
  shows
    "(load_dotenv (environ w) (str ''OPENAI_API_KEY'') = None \<longrightarrow>
        main load_dotenv run w =
          (Inl (ValueError
             (str ''OPENAI_API_KEY not found. Please create a .env file with your API key.'')),
           w\<lparr>environ := load_dotenv (environ w),
             out := out w @ [Print rule60,
                             Print ([0x1F517] @ str '' LangChain LLM Chain Basics''),
                             Print rule60]\<rparr>)) \<and>
     (load_dotenv (environ w) (str ''OPENAI_API_KEY'') = Some s \<and> s \<noteq> [] \<longrightarrow>
        (load_environment load_dotenv w :: ('e exn + unit) \<times> 'b world) =
          (Inr (), w\<lparr>environ := load_dotenv (environ w)\<rparr>))"
  by (simp add: main_def load_environment_def then_do_def py_print_def py_not_def)

theorem missing_api_key_is_fatal_witness:
  "main (\<lambda>e. e) (\<lambda>b c a. (Inr (str ''ok''), b) :: (unit + pystr) \<times> unit)
      \<lparr>environ = Map.empty, stdin = [], out = [], backend = ()\<rparr> =
     (Inl (ValueError
        (str ''OPENAI_API_KEY not found. Please create a .env file with your API key.'')),
      \<lparr>environ = Map.empty, stdin = [],
       out = [Print rule60, Print ([0x1F517] @ str '' LangChain LLM Chain Basics''),
              Print rule60],
       backend = ()\<rparr>) \<and>
   (load_environment (\<lambda>e. e)
      \<lparr>environ = [str ''OPENAI_API_KEY'' \<mapsto> str ''sk-test''], stdin = [], out = [],
       backend = ()\<rparr> :: (unit exn + unit) \<times> unit world) =
     (Inr (), \<lparr>environ = [str ''OPENAI_API_KEY'' \<mapsto> str ''sk-test''], stdin = [], out = [],
               backend = ()\<rparr>)"
  using
    missing_api_key_is_fatal [where load_dotenv = "\<lambda>e. e"
      and run = "\<lambda>b c a. (Inr (str ''ok''), b) :: (unit + pystr) \<times> unit"
      and w = "\<lparr>environ = Map.empty, stdin = [], out = [], backend = ()\<rparr>"]
    missing_api_key_is_fatal [where load_dotenv = "\<lambda>e. e"
      and run = "\<lambda>b c a. (Inr (str ''ok''), b) :: (unit + pystr) \<times> unit"
      and w = "\<lparr>environ = [str ''OPENAI_API_KEY'' \<mapsto> str ''sk-test''], stdin = [], out = [],
               backend = ()\<rparr>"
      and s = "str ''sk-test''"]
  by (simp add: str_def)

text \<open>
  Claim C10. A line that is empty after stripping (by \<open>py_strip_Nil_iff\<close>: a line that
  is empty or all whitespace) is not forwarded. The loop goes on from a state in which
  only the prompt and the message \<open>Please enter a valid question.\<close> have been added to
  the trace and the library's state is as before; the next thing it does is ask for
  input again. Over the whole loop, every \<open>chain.run\<close> it adds to the trace carries a
  stripped line that is not empty.
\<close>

theorem blank_input_not_forwarded:
  assumes "stdin w = l # ls" and "py_strip l = []"
  shows
    "interactive_loop run chain w =
       interactive_loop run chain
         (w\<lparr>stdin := ls, out := out w @ [Ask ask_question, Print please_enter]\<rparr>) \<and>
     (\<exists>rest. out (snd (interactive_loop run chain w)) =
        out w @ [Ask ask_question, Print please_enter, Ask ask_question] @ rest) \<and>
     (\<forall>c a. Call c a \<in> set (out (snd (interactive_loop run chain w))) \<longrightarrow>
        Call c a \<in> set (out w) \<or>
        (c = chain \<and>
         (\<exists>x\<in>set (stdin w). py_strip x \<noteq> [] \<and> a = Keywords [(''question'', py_strip x)])))"
proof (intro conjI allI impI)
  let ?w1 = "w\<lparr>stdin := ls, out := out w @ [Ask ask_question, Print please_enter]\<rparr>"
  show step: "interactive_loop run chain w = interactive_loop run chain ?w1"
    using assms by (rule loop_blank)
  obtain rest where "out (snd (interactive_loop run chain ?w1)) = out ?w1 @ Ask ask_question # rest"
    using loop_out_prefix by blast
  then have "out (snd (interactive_loop run chain w)) =
      out w @ [Ask ask_question, Print please_enter, Ask ask_question] @ rest"
    by (simp add: step)
  then show "\<exists>rest. out (snd (interactive_loop run chain w)) =
      out w @ [Ask ask_question, Print please_enter, Ask ask_question] @ rest" ..
next
  fix c a
  assume "Call c a \<in> set (out (snd (interactive_loop run chain w)))"
  then show "Call c a \<in> set (out w) \<or>
    (c = chain \<and>
     (\<exists>x\<in>set (stdin w). py_strip x \<noteq> [] \<and> a = Keywords [(''question'', py_strip x)]))"
    by (rule loop_calls)
qed

theorem blank_input_not_forwarded_witness:
  "py_strip (str ''   '') = [] \<and>
   interactive_loop (\<lambda>b c a. (Inr (str ''ok''), b) :: (unit + pystr) \<times> unit) question_chain
     \<lparr>environ = Map.empty, stdin = [str ''   '', str ''exit''], out = [], backend = ()\<rparr> =
   interactive_loop (\<lambda>b c a. (Inr (str ''ok''), b)) question_chain
     \<lparr>environ = Map.empty, stdin = [str ''exit''],
      out = [Ask ask_question, Print please_enter], backend = ()\<rparr> \<and>
   out (snd (interactive_loop (\<lambda>b c a. (Inr (str ''ok''), b) :: (unit + pystr) \<times> unit)
     question_chain
     \<lparr>environ = Map.empty, stdin = [str ''   '', str ''exit''], out = [], backend = ()\<rparr>)) =
   [Ask ask_question, Print please_enter, Ask ask_question, Print goodbye]"
proof -
  have blank: "py_strip (str ''   '') = []"
    by (simp add: py_strip_def str_def isspace_def)
  have "stdin \<lparr>environ = Map.empty, stdin = [str ''   '', str ''exit''], out = [],
               backend = ()\<rparr> = str ''   '' # [str ''exit'']"
    by simp
  from blank_input_not_forwarded [OF this blank,
      of "\<lambda>b c a. (Inr (str ''ok''), b) :: (unit + pystr) \<times> unit" question_chain]
  show ?thesis
    by (simp add: blank interactive_loop.simps py_input_def py_print_def run_chain_def
        py_strip_def py_lower_def lower_cp_def isspace_def str_def)
qed

text \<open>
  Claim C8, as the code has it. The loop tests the line after \<open>strip()\<close>:
  \<^item> a line that strips and lowercases to \<open>exit\<close> ends the loop with the goodbye message
    (so does every line whose own lower case is \<open>exit\<close>: it has nothing to strip);
  \<^item> the loop returns normally only in this way, at the first such line;
  \<^item> every other line that is not empty after stripping is forwarded, stripped, as the
    keyword argument \<open>question\<close> of the question chain, whose template declares the one
    parameter \<open>question\<close>: whatever the chain then does, the trace goes on with the
    prompt, the response header, the rule and this one \<open>chain.run\<close>;
  \<^item> when the chain returns a response, the response is printed and the loop goes on
    with the next line; when the chain raises, the loop ends with that exception, with
    nothing printed after the call.
\<close>

theorem interactive_loop_exit_and_forward:
  fixes run :: "('b, 'e) chain_run" and w w' :: "'b world"
  shows
    "(stdin w = l # ls \<and> py_lower (py_strip l) = str ''exit'' \<longrightarrow>
        interactive_loop run question_chain w =
          (Inr (), w\<lparr>stdin := ls, out := out w @ [Ask ask_question, Print goodbye]\<rparr>)) \<and>
     (py_lower l = str ''exit'' \<longrightarrow> py_lower (py_strip l) = str ''exit'') \<and>
     (interactive_loop run question_chain w = (Inr (), w') \<longrightarrow>
        (\<exists>pre x. stdin w = pre @ x # stdin w' \<and> py_lower (py_strip x) = str ''exit'' \<and>
           (\<forall>y\<in>set pre. py_lower (py_strip y) \<noteq> str ''exit''))) \<and>
     (stdin w = l # ls \<and> py_lower (py_strip l) \<noteq> str ''exit'' \<and> py_strip l \<noteq> [] \<longrightarrow>
        (\<exists>rest. out (snd (interactive_loop run question_chain w)) =
           out w @ [Ask ask_question, Print response_header, Print rule40,
                    Call question_chain (Keywords [(''question'', py_strip l)])] @ rest)) \<and>
     (stdin w = l # ls \<and> py_lower (py_strip l) \<noteq> str ''exit'' \<and> py_strip l \<noteq> [] \<and>
      run (backend w) question_chain (Keywords [(''question'', py_strip l)]) = (Inl e, b') \<longrightarrow>
        interactive_loop run question_chain w =
          (Inl (LibraryError e),
           w\<lparr>stdin := ls, backend := b',
             out := out w @ [Ask ask_question, Print response_header, Print rule40,
                             Call question_chain (Keywords [(''question'', py_strip l)])]\<rparr>)) \<and>
     (stdin w = l # ls \<and> py_lower (py_strip l) \<noteq> str ''exit'' \<and> py_strip l \<noteq> [] \<and>
      run (backend w) question_chain (Keywords [(''question'', py_strip l)]) = (Inr response, b) \<longrightarrow>
        interactive_loop run question_chain w =
          interactive_loop run question_chain
            (w\<lparr>stdin := ls, backend := b,
               out := out w @ [Ask ask_question, Print response_header, Print rule40,
                               Call question_chain (Keywords [(''question'', py_strip l)]),
                               Print response]\<rparr>)) \<and>
     input_variables (prompt question_chain) = [str ''question'']"
proof (intro conjI impI)
  assume "stdin w = l # ls \<and> py_lower (py_strip l) = str ''exit''"
  then show "interactive_loop run question_chain w =
      (Inr (), w\<lparr>stdin := ls, out := out w @ [Ask ask_question, Print goodbye]\<rparr>)"
    by (simp add: loop_exit)
next
  assume "py_lower l = str ''exit''"
  then show "py_lower (py_strip l) = str ''exit''"
    by (simp add: py_lower_exit_strip)
next
  assume "interactive_loop run question_chain w = (Inr (), w')"
  then show "\<exists>pre x. stdin w = pre @ x # stdin w' \<and> py_lower (py_strip x) = str ''exit'' \<and>
      (\<forall>y\<in>set pre. py_lower (py_strip y) \<noteq> str ''exit'')"
    by (rule loop_normal_exit)
next
  assume a: "stdin w = l # ls \<and> py_lower (py_strip l) \<noteq> str ''exit'' \<and> py_strip l \<noteq> []"
  then have st: "stdin w = l # ls" and nex: "py_lower (py_strip l) \<noteq> str ''exit''"
    and nb: "py_strip l \<noteq> []"
    by simp_all
  obtain r c where rc: "run (backend w) question_chain (Keywords [(''question'', py_strip l)]) = (r, c)"
    by (cases "run (backend w) question_chain (Keywords [(''question'', py_strip l)])")
  show "\<exists>rest. out (snd (interactive_loop run question_chain w)) =
      out w @ [Ask ask_question, Print response_header, Print rule40,
               Call question_chain (Keywords [(''question'', py_strip l)])] @ rest"
  proof (cases r)
    case (Inl x)
    with rc show ?thesis by (simp add: loop_fail [OF st nex nb])
  next
    case (Inr answer)
    let ?w1 = "w\<lparr>stdin := ls, backend := c,
      out := out w @ [Ask ask_question, Print response_header, Print rule40,
                      Call question_chain (Keywords [(''question'', py_strip l)]),
                      Print answer]\<rparr>"
    obtain rest where
      "out (snd (interactive_loop run question_chain ?w1)) = out ?w1 @ Ask ask_question # rest"
      using loop_out_prefix by blast
    with rc Inr show ?thesis by (simp add: loop_forward [OF st nex nb])
  qed
next
  assume a: "stdin w = l # ls \<and> py_lower (py_strip l) \<noteq> str ''exit'' \<and> py_strip l \<noteq> [] \<and>
    run (backend w) question_chain (Keywords [(''question'', py_strip l)]) = (Inl e, b')"
  then show "interactive_loop run question_chain w =
      (Inl (LibraryError e),
       w\<lparr>stdin := ls, backend := b',
         out := out w @ [Ask ask_question, Print response_header, Print rule40,
                         Call question_chain (Keywords [(''question'', py_strip l)])]\<rparr>)"
    by (intro loop_fail) simp_all
next
  assume a: "stdin w = l # ls \<and> py_lower (py_strip l) \<noteq> str ''exit'' \<and> py_strip l \<noteq> [] \<and>
    run (backend w) question_chain (Keywords [(''question'', py_strip l)]) = (Inr response, b)"
  then show "interactive_loop run question_chain w =
      interactive_loop run question_chain
        (w\<lparr>stdin := ls, backend := b,
           out := out w @ [Ask ask_question, Print response_header, Print rule40,
                           Call question_chain (Keywords [(''question'', py_strip l)]),
                           Print response]\<rparr>)"
    by (intro loop_forward) simp_all
next
  show "input_variables (prompt question_chain) = [str ''question'']"
    by (simp add: question_chain_def create_chain_def create_prompt_template_def)
qed

theorem interactive_loop_exit_and_forward_witness:
  "py_lower (py_strip (str '' Exit '')) = str ''exit'' \<and>
   interactive_loop (\<lambda>b c a. (Inr (str ''ok''), b) :: (unit + pystr) \<times> unit) question_chain
     \<lparr>environ = Map.empty, stdin = [str '' Exit '', str ''more''], out = [], backend = ()\<rparr> =
   (Inr (), \<lparr>environ = Map.empty, stdin = [str ''more''],
             out = [Ask ask_question, Print goodbye], backend = ()\<rparr>) \<and>
   py_lower (py_strip (str '' hi '')) \<noteq> str ''exit'' \<and> py_strip (str '' hi '') \<noteq> [] \<and>
   interactive_loop (\<lambda>b c a. (Inr (str ''ok''), b) :: (unit + pystr) \<times> unit) question_chain
     \<lparr>environ = Map.empty, stdin = [str '' hi '', str ''exit''], out = [], backend = ()\<rparr> =
   (Inr (), \<lparr>environ = Map.empty, stdin = [],
             out = [Ask ask_question, Print response_header, Print rule40,
                    Call question_chain (Keywords [(''question'', str ''hi'')]),
                    Print (str ''ok''), Ask ask_question, Print goodbye],
             backend = ()\<rparr>) \<and>
   py_lower (py_strip (str ''why?'')) \<noteq> str ''exit'' \<and> py_strip (str ''why?'') \<noteq> [] \<and>
   interactive_loop (\<lambda>b c a. (Inl (), b) :: (unit + pystr) \<times> unit) question_chain
     \<lparr>environ = Map.empty, stdin = [str ''why?'', str ''exit''], out = [], backend = ()\<rparr> =
   (Inl (LibraryError ()),
    \<lparr>environ = Map.empty, stdin = [str ''exit''],
     out = [Ask ask_question, Print response_header, Print rule40,
            Call question_chain (Keywords [(''question'', str ''why?'')])],
     backend = ()\<rparr>)"
  using
    interactive_loop_exit_and_forward [where l = "str ''why?''" and ls = "[str ''exit'']"
      and run = "\<lambda>b c a. (Inl (), b) :: (unit + pystr) \<times> unit"
      and w = "\<lparr>environ = Map.empty, stdin = [str ''why?'', str ''exit''], out = [],
               backend = ()\<rparr>"
      and e = "()" and b' = "()"]
    interactive_loop_exit_and_forward [where l = "str '' Exit ''" and ls = "[str ''more'']"
      and run = "\<lambda>b c a. (Inr (str ''ok''), b) :: (unit + pystr) \<times> unit"
      and w = "\<lparr>environ = Map.empty, stdin = [str '' Exit '', str ''more''], out = [],
               backend = ()\<rparr>"]
    interactive_loop_exit_and_forward [where l = "str '' hi ''" and ls = "[str ''exit'']"
      and run = "\<lambda>b c a. (Inr (str ''ok''), b) :: (unit + pystr) \<times> unit"
      and w = "\<lparr>environ = Map.empty, stdin = [str '' hi '', str ''exit''], out = [],
               backend = ()\<rparr>"
      and response = "str ''ok''" and b = "()"]
  by (simp add: interactive_loop.simps py_input_def py_print_def run_chain_def
      py_strip_def py_lower_def lower_cp_def isspace_def str_def)

text \<open>
  The claim as the spec words it fails on the code in two places. The line of two
  spaces is not empty and its lower case is not \<open>exit\<close>, yet it is not forwarded: the
  loop prints the re-prompt message and reads on. And on the line \<open>hi\<close> with a chain that
  raises, no response is printed and the loop does not go on: it ends with the
  library's exception, with no \<open>exit\<close> entered.
\<close>

theorem interactive_loop_claim_counterexample:
  "str ''  '' \<noteq> [] \<and> py_lower (str ''  '') \<noteq> str ''exit'' \<and>
   interactive_loop (\<lambda>b c a. (Inr (str ''ok''), b) :: (unit + pystr) \<times> unit) question_chain
     \<lparr>environ = Map.empty, stdin = [str ''  '', str ''exit''], out = [], backend = ()\<rparr> =
   (Inr (), \<lparr>environ = Map.empty, stdin = [],
             out = [Ask ask_question, Print please_enter, Ask ask_question, Print goodbye],
             backend = ()\<rparr>) \<and>
   interactive_loop (\<lambda>b c a. (Inl (), b) :: (unit + pystr) \<times> unit) question_chain
     \<lparr>environ = Map.empty, stdin = [str ''hi'', str ''more''], out = [], backend = ()\<rparr> =
   (Inl (LibraryError ()),
    \<lparr>environ = Map.empty, stdin = [str ''more''],
     out = [Ask ask_question, Print response_header, Print rule40,
            Call question_chain (Keywords [(''question'', str ''hi'')])],
     backend = ()\<rparr>)"
  by (simp add: interactive_loop.simps py_input_def py_print_def run_chain_def
      py_strip_def py_lower_def lower_cp_def isspace_def str_def)

end
